theory Spec2Isabelle
  imports Main "HOL-Library.Sublist"
begin

section \<open>Python primitives used by the server\<close>

text \<open>
  A Python string is the list of the bytes of its UTF-8 encoding.

  \<open>str.lower\<close> follows the Unicode case tables of the interpreter, which are not part of the
  repository. The functions that lower-case free text (\<open>search_knowledge\<close>,
  \<open>analyze_change\<close> and what calls them) therefore take the lower-casing function as
  their first argument \<open>str_lower\<close>, and what is proved about them holds for every such
  function.

  \<open>lower\<close> below is the ASCII case folding: the 26 upper-case letters are mapped to their
  lower-case forms and every other byte is kept. It is what \<open>str.lower\<close> does to a string
  of ASCII characters, and it is the instance of \<open>str_lower\<close> used on the ASCII examples.
\<close>

definition lower_char :: "char \<Rightarrow> char" where
  "lower_char c =
     (case map_of (zip ''ABCDEFGHIJKLMNOPQRSTUVWXYZ'' ''abcdefghijklmnopqrstuvwxyz'') c of
        None \<Rightarrow> c
      | Some l \<Rightarrow> l)"

definition lower :: "string \<Rightarrow> string" where
  "lower s = map lower_char s"

text \<open>
  \<open>k in text\<close> on two strings: \<open>k\<close> occurs in \<open>text\<close> as a contiguous substring. On
  UTF-8 encodings this is the same as the occurrence of the code points of \<open>k\<close> in those
  of \<open>text\<close>, because no encoded character starts inside another.
\<close>

fun startswith :: "string \<Rightarrow> string \<Rightarrow> bool" where
  "startswith t [] = True"
| "startswith [] (k # ks) = False"
| "startswith (c # cs) (k # ks) = (c = k \<and> startswith cs ks)"

fun py_in :: "string \<Rightarrow> string \<Rightarrow> bool" where
  "py_in k [] = (k = [])"
| "py_in k (c # cs) = (startswith (c # cs) k \<or> py_in k cs)"

text \<open>\<open>str(n)\<close> for an integer, as an f-string prints it.\<close>

definition digit_char :: "nat \<Rightarrow> char" where
  "digit_char d = ''0123456789'' ! (d mod 10)"

fun str_nat :: "nat \<Rightarrow> string" where
  "str_nat n = (if n < 10 then [digit_char n] else str_nat (n div 10) @ [digit_char (n mod 10)])"

definition str_int :: "int \<Rightarrow> string" where
  "str_int i = (if i < 0 then CHR ''-'' # str_nat (nat (- i)) else str_nat (nat i))"

text \<open>\<open>d.get(key, default)\<close> on an optional field: \<open>None\<close> is the absent key.\<close>

definition get_or :: "'a option \<Rightarrow> 'a \<Rightarrow> 'a" where
  "get_or field dflt = (case field of None \<Rightarrow> dflt | Some v \<Rightarrow> v)"

text \<open>
  A \<open>defaultdict(int)\<close> is an association list in insertion order. \<open>dd_count\<close> is the value
  a key stands for (0 when absent), \<open>dd_incr\<close> is \<open>d[k] += 1\<close>, and \<open>dd_getitem\<close> is the
  read \<open>d[k]\<close>, which inserts the key with 0 when it is absent.
\<close>

definition dd_count :: "('k \<times> nat) list \<Rightarrow> 'k \<Rightarrow> nat" where
  "dd_count d k = (case map_of d k of None \<Rightarrow> 0 | Some n \<Rightarrow> n)"

fun dd_incr :: "('k \<times> nat) list \<Rightarrow> 'k \<Rightarrow> ('k \<times> nat) list" where
  "dd_incr [] k = [(k, 1)]"
| "dd_incr ((k', n) # d) k = (if k' = k then (k', n + 1) # d else (k', n) # dd_incr d k)"

text \<open>\<open>d[key]\<close> on a plain dictionary raises \<open>KeyError\<close> for an absent key.\<close>

datatype py_error = TypeError | ValueError | KeyError

definition dict_getitem :: "('k \<times> 'v) list \<Rightarrow> 'k \<Rightarrow> py_error + 'v" where
  "dict_getitem d k = (case map_of d k of None \<Rightarrow> Inl KeyError | Some v \<Rightarrow> Inr v)"

definition dd_getitem :: "('k \<times> nat) list \<Rightarrow> 'k \<Rightarrow> nat \<times> ('k \<times> nat) list" where
  "dd_getitem d k = (case map_of d k of None \<Rightarrow> (0, d @ [(k, 0)]) | Some n \<Rightarrow> (n, d))"

text \<open>
  A \<open>datetime\<close> is naive or timezone-aware; the integer is its position on the time line in
  microseconds. Subtracting a naive and an aware value raises \<open>TypeError\<close>.
\<close>

datatype datetime = Naive int | Aware int

fun datetime_sub :: "datetime \<Rightarrow> datetime \<Rightarrow> py_error + int" where
  "datetime_sub (Naive a) (Naive b) = Inr (a - b)"
| "datetime_sub (Aware a) (Aware b) = Inr (a - b)"
| "datetime_sub (Naive a) (Aware b) = Inl TypeError"
| "datetime_sub (Aware a) (Naive b) = Inl TypeError"

text \<open>
  One reading of the wall clock, in the three forms the code asks for:
  \<open>datetime.utcnow()\<close>, its \<open>isoformat()\<close> and its \<open>strftime('%Y%m%d%H%M%S')\<close>.
\<close>

record clock =
  utcnow :: int
  isoformat :: string
  strftime :: string

section \<open>Data model\<close>

type_synonym attrs = "(string \<times> string) list"

record knowledge_item =
  k_title :: "string option"
  k_content :: "string option"

record change_pattern =
  p_keywords :: "string list option"
  p_risk_level :: "string option"
  p_impacts :: "string list option"
  p_safe_conditions :: "string list option"
  p_safeguards :: "string list option"
  p_description :: "string option"
  p_example :: "string option"

text \<open>
  The dictionary \<open>analyze_change\<close> returns and the review and approval tools receive.
  Every key may be absent.
\<close>

record analysis =
  a_timestamp :: "string option"
  a_change_description :: "string option"
  a_matched_pattern :: "string option"
  a_risk_level :: "string option"
  a_impact :: "string list option"
  a_safe_conditions :: "string list option"
  a_safeguards :: "string list option"
  a_risk_definition :: "attrs option"
  a_requires_manual_review :: "bool option"
  a_message :: "string option"
  a_recommendation :: "string option"

definition empty_analysis :: analysis where
  "empty_analysis =
     \<lparr> a_timestamp = None, a_change_description = None, a_matched_pattern = None,
       a_risk_level = None, a_impact = None, a_safe_conditions = None, a_safeguards = None,
       a_risk_definition = None, a_requires_manual_review = None, a_message = None,
       a_recommendation = None \<rparr>"

section \<open>MetricsCollector\<close>

record analysis_entry =
  e_timestamp :: "string option"
  e_risk_level :: "string option"
  e_pattern :: "string option"
  e_requires_review :: "bool option"

record metrics_collector =
  analyses :: "analysis_entry list"
  risk_distribution :: "(string \<times> nat) list"
  pattern_usage :: "(string \<times> nat) list"
  start_time :: datetime

text \<open>\<open>MetricsCollector.__init__\<close>: \<open>start_time = datetime.now(UTC)\<close> is timezone-aware.\<close>

definition new_metrics :: "int \<Rightarrow> metrics_collector" where
  "new_metrics t0 =
     \<lparr> analyses = [], risk_distribution = [], pattern_usage = [], start_time = Aware t0 \<rparr>"

definition record_analysis :: "metrics_collector \<Rightarrow> analysis \<Rightarrow> metrics_collector" where
  "record_analysis self a =
     (let self1 = self\<lparr> analyses := analyses self @
                    [\<lparr> e_timestamp = a_timestamp a, e_risk_level = a_risk_level a,
                       e_pattern = a_matched_pattern a,
                       e_requires_review = a_requires_manual_review a \<rparr>] \<rparr>;
          risk = get_or (a_risk_level a) ''UNKNOWN'';
          self2 = self1\<lparr> risk_distribution := dd_incr (risk_distribution self1) risk \<rparr>
      in case a_matched_pattern a of
           None \<Rightarrow> self2
         | Some pattern \<Rightarrow>
             if pattern \<noteq> [] then self2\<lparr> pattern_usage := dd_incr (pattern_usage self2) pattern \<rparr>
             else self2)"

text \<open>
  The statistics dictionary. \<open>uptime_seconds\<close> and \<open>high_risk_percentage\<close> are floats in the
  source; the record keeps the exact integers they are computed from: the time difference
  in microseconds, and the numerator and denominator of the percentage.
\<close>

record statistics =
  total_analyses :: nat
  uptime_microseconds :: int
  high_risk_fraction :: "nat \<times> nat"
  s_risk_distribution :: "(string \<times> nat) list"
  top_patterns :: "(string \<times> nat) list"
  recent_analyses :: "analysis_entry list"

definition get_statistics ::
  "metrics_collector \<Rightarrow> clock \<Rightarrow> (py_error + statistics) \<times> metrics_collector" where
  "get_statistics self clk =
     (let total = length (analyses self);
          (high, rd1) = dd_getitem (risk_distribution self) ''HIGH'';
          (critical, rd2) = dd_getitem rd1 ''CRITICAL'';
          high_risk_count = high + critical;
          self' = self\<lparr> risk_distribution := rd2 \<rparr>
      in case datetime_sub (Naive (utcnow clk)) (start_time self') of
           Inl err \<Rightarrow> (Inl err, self')
         | Inr uptime \<Rightarrow>
             (Inr \<lparr> total_analyses = total,
                    uptime_microseconds = uptime,
                    high_risk_fraction = (high_risk_count, max total 1),
                    s_risk_distribution = rd2,
                    top_patterns = take 5 (sort_key (\<lambda>(p, n). - int n) (pattern_usage self')),
                    recent_analyses = drop (length (analyses self') - 10) (analyses self') \<rparr>,
              self'))"

section \<open>ApprovalWorkflowEngine\<close>

record stage =
  st_name :: "string option"
  st_description :: "string option"
  st_auto_approve :: "bool option"
  st_approvers :: "string list option"
  st_required_for :: "string list option"

record approval_workflow =
  stages :: "stage list option"

record workflow_config =
  approval_workflow :: "approval_workflow option"

record required_approval =
  ra_stage :: "string option"
  ra_description :: string
  ra_auto_approve :: bool
  ra_approvers :: "string list"

definition required_entry :: "stage \<Rightarrow> required_approval" where
  "required_entry s =
     \<lparr> ra_stage = st_name s,
       ra_description = get_or (st_description s) [],
       ra_auto_approve = get_or (st_auto_approve s) False,
       ra_approvers = get_or (st_approvers s) [] \<rparr>"

text \<open>The \<open>for stage in stages\<close> loop, with \<open>required\<close> as the list built so far.\<close>

fun required_loop :: "string \<Rightarrow> stage list \<Rightarrow> required_approval list \<Rightarrow> required_approval list" where
  "required_loop risk [] required = required"
| "required_loop risk (s # rest) required =
     (let required_for = get_or (st_required_for s) []
      in if risk \<in> set required_for
         then required_loop risk rest (required @ [required_entry s])
         else required_loop risk rest required)"

definition configured_stages :: "workflow_config \<Rightarrow> stage list" where
  "configured_stages wcfg =
     (let workflow = get_or (approval_workflow wcfg) \<lparr> stages = None \<rparr>
      in get_or (stages workflow) [])"

definition get_required_approvals :: "workflow_config \<Rightarrow> string \<Rightarrow> required_approval list" where
  "get_required_approvals wcfg risk = required_loop risk (configured_stages wcfg) []"

definition estimate_approval_time :: "required_approval list \<Rightarrow> string" where
  "estimate_approval_time stgs =
     (let hours = length stgs * 2
      in if hours \<le> 4 then ''Same day''
         else if hours \<le> 24 then ''Within 24 hours''
         else str_nat (hours div 24) @ '' business days'')"

record approval_chain =
  requires_approval :: bool
  c_reason :: "string option"
  c_risk_level :: "string option"
  c_change_description :: "string option"
  approval_stages :: "required_approval list option"
  estimated_approval_time :: "string option"
  workflow_id :: "string option"
  c_status :: "string option"
  c_note :: "string option"

definition create_approval_chain :: "workflow_config \<Rightarrow> clock \<Rightarrow> analysis \<Rightarrow> approval_chain" where
  "create_approval_chain wcfg clk a =
     (let risk = get_or (a_risk_level a) ''UNKNOWN'';
          required_approvals = get_required_approvals wcfg risk
      in if required_approvals = []
         then \<lparr> requires_approval = False,
                c_reason = Some ''Risk level does not require approval workflow'',
                c_risk_level = None, c_change_description = None, approval_stages = None,
                estimated_approval_time = None, workflow_id = None, c_status = None,
                c_note = None \<rparr>
         else \<lparr> requires_approval = True,
                c_reason = None,
                c_risk_level = Some risk,
                c_change_description = a_change_description a,
                approval_stages = Some required_approvals,
                estimated_approval_time = Some (estimate_approval_time required_approvals),
                workflow_id = Some (''WF-'' @ strftime clk),
                c_status = Some ''PENDING_APPROVAL'',
                c_note = Some ''This is an advisory workflow. No automatic execution will occur.'' \<rparr>)"

section \<open>CICDValidator\<close>

record resources_config =
  limits :: "attrs option"

record deployment_config =
  replicas :: "int option"
  resources :: "resources_config option"
  healthCheck :: "attrs option"
  environment :: "string option"

record finding =
  severity :: string
  field :: string
  message :: string
  recommendation :: string

record validation_summary =
  total_issues :: nat
  total_warnings :: nat
  blocking_issues :: nat

record validation_result =
  valid :: bool
  v_environment :: string
  issues :: "finding list"
  warnings :: "finding list"
  summary :: validation_summary
  v_recommendation :: string

text \<open>
  The four checks of \<open>validate_deployment_config\<close>, in the order the source runs them.
  Each takes the pair \<open>(issues, warnings)\<close> accumulated so far and returns it extended.
\<close>

definition check_replicas :: "deployment_config \<Rightarrow> finding list \<times> finding list \<Rightarrow> finding list \<times> finding list" where
  "check_replicas config acc =
     (let (iss, wrn) = acc; reps = get_or (replicas config) 0
      in if reps < 2
         then (iss @ [\<lparr> severity = ''HIGH'', field = ''replicas'',
                         message = ''Replica count ('' @ str_int reps @ '') is below recommended minimum of 2'',
                         recommendation = ''Increase replicas to at least 2 for high availability'' \<rparr>], wrn)
         else if reps < 3
         then (iss, wrn @ [\<lparr> severity = ''MEDIUM'', field = ''replicas'',
                              message = ''Replica count ('' @ str_int reps @ '') is below optimal count of 3'',
                              recommendation = ''Consider increasing to 3 replicas for better fault tolerance'' \<rparr>])
         else (iss, wrn))"

definition check_limits :: "deployment_config \<Rightarrow> finding list \<times> finding list \<Rightarrow> finding list \<times> finding list" where
  "check_limits config acc =
     (let (iss, wrn) = acc;
          res = get_or (resources config) \<lparr> limits = None \<rparr>;
          lim = get_or (limits res) []
      in if lim = []
         then (iss, wrn @ [\<lparr> severity = ''MEDIUM'', field = ''resources.limits'',
                              message = ''No resource limits defined'',
                              recommendation = ''Define CPU and memory limits to prevent resource exhaustion'' \<rparr>])
         else (iss, wrn))"

definition check_health :: "deployment_config \<Rightarrow> finding list \<times> finding list \<Rightarrow> finding list \<times> finding list" where
  "check_health config acc =
     (let (iss, wrn) = acc; health_check = get_or (healthCheck config) []
      in if health_check = []
         then (iss @ [\<lparr> severity = ''MEDIUM'', field = ''healthCheck'',
                         message = ''No health check configured'',
                         recommendation = ''Add liveness and readiness probes'' \<rparr>], wrn)
         else (iss, wrn))"

definition check_environment :: "deployment_config \<Rightarrow> finding list \<times> finding list \<Rightarrow> finding list \<times> finding list" where
  "check_environment config acc =
     (let (iss, wrn) = acc; env = get_or (environment config) ''unknown''
      in if env = ''production'' \<and> length iss > 0
         then (iss @ [\<lparr> severity = ''CRITICAL'', field = ''environment'',
                         message = ''Production deployment has blocking issues'',
                         recommendation = ''Resolve all HIGH severity issues before production deployment'' \<rparr>], wrn)
         else (iss, wrn))"

text \<open>The state of \<open>(issues, warnings)\<close> after the replica, limits and health checks.\<close>

definition rules_1_to_3 :: "deployment_config \<Rightarrow> finding list \<times> finding list" where
  "rules_1_to_3 config = check_health config (check_limits config (check_replicas config ([], [])))"

definition validate_deployment_config :: "deployment_config \<Rightarrow> validation_result" where
  "validate_deployment_config config =
     (let (iss, wrn) = check_environment config (rules_1_to_3 config)
      in \<lparr> valid = (length iss = 0),
           v_environment = get_or (environment config) ''unknown'',
           issues = iss,
           warnings = wrn,
           summary = \<lparr> total_issues = length iss,
                       total_warnings = length wrn,
                       blocking_issues = length (filter (\<lambda>i. severity i \<in> set [''HIGH'', ''CRITICAL'']) iss) \<rparr>,
           v_recommendation =
             (if length iss > 0 then ''BLOCK DEPLOYMENT''
              else if length wrn > 0 then ''PROCEED WITH CAUTION''
              else ''APPROVED'') \<rparr>)"

record stage_requirements =
  min_replicas :: int
  require_health_check :: bool

definition stage_configs :: "(string \<times> stage_requirements) list" where
  "stage_configs =
     [(''dev'', \<lparr> min_replicas = 1, require_health_check = False \<rparr>),
      (''staging'', \<lparr> min_replicas = 2, require_health_check = True \<rparr>),
      (''production'', \<lparr> min_replicas = 3, require_health_check = True \<rparr>)]"

record stage_issue =
  si_severity :: string
  si_message :: string

record stage_validation =
  sv_stage :: string
  sv_valid :: bool
  sv_issues :: "stage_issue list"

text \<open>
  \<open>stage.lower()\<close> is only looked up among the three ASCII keys of \<open>stage_configs\<close>. A
  name lower-cases to one of them under \<open>str.lower\<close> exactly when it does under the ASCII
  folding \<open>lower\<close>: a character outside ASCII lower-cases to a character outside ASCII,
  except the Kelvin sign, which becomes \<open>k\<close>, a letter none of the keys has. So \<open>lower\<close>
  is used here as it stands.
\<close>

definition validate_pipeline_stage :: "string \<Rightarrow> deployment_config \<Rightarrow> py_error + stage_validation" where
  "validate_pipeline_stage stage_name config =
     (case dict_getitem stage_configs ''production'' of
        Inl err \<Rightarrow> Inl err
      | Inr fallback \<Rightarrow>
          (let reqs = get_or (map_of stage_configs (lower stage_name)) fallback;
               reps = get_or (replicas config) 0;
               iss1 = (if reps < min_replicas reqs
                       then [\<lparr> si_severity = ''HIGH'',
                               si_message = stage_name @ '' requires at least '' @
                                 str_int (min_replicas reqs) @ '' replicas'' \<rparr>]
                       else []);
               iss2 = (if require_health_check reqs \<and>
                          (case healthCheck config of None \<Rightarrow> True | Some h \<Rightarrow> h = [])
                       then iss1 @ [\<lparr> si_severity = ''HIGH'',
                                      si_message = stage_name @ '' requires health check configuration'' \<rparr>]
                       else iss1)
           in Inr \<lparr> sv_stage = stage_name, sv_valid = (length iss2 = 0), sv_issues = iss2 \<rparr>))"

section \<open>ChangeImpactSimulatorServer\<close>

text \<open>
  The configuration dictionaries keep their insertion order, so each is an association list.
  \<open>metrics\<close> is the only part of the server that an operation writes.
\<close>

record server =
  knowledge_base :: "(string \<times> knowledge_item list) list"
  change_patterns :: "(string \<times> change_pattern) list"
  risk_definitions :: "(string \<times> attrs) list"
  intents :: attrs
  actions :: attrs
  persona :: attrs
  workflows :: workflow_config
  metrics :: metrics_collector

record search_hit =
  h_category :: string
  h_title :: "string option"
  h_content :: "string option"

fun search_items ::
  "(string \<Rightarrow> string) \<Rightarrow> string \<Rightarrow> string \<Rightarrow> knowledge_item list \<Rightarrow> search_hit list" where
  "search_items str_lower query category [] = []"
| "search_items str_lower query category (item # rest) =
     (let title = str_lower (get_or (k_title item) []);
          content = str_lower (get_or (k_content item) [])
      in if py_in query title \<or> py_in query content
         then \<lparr> h_category = category, h_title = k_title item, h_content = k_content item \<rparr>
                # search_items str_lower query category rest
         else search_items str_lower query category rest)"

fun search_categories ::
  "(string \<Rightarrow> string) \<Rightarrow> string \<Rightarrow> (string \<times> knowledge_item list) list \<Rightarrow> search_hit list" where
  "search_categories str_lower query [] = []"
| "search_categories str_lower query ((category, items) # rest) =
     search_items str_lower query category items @ search_categories str_lower query rest"

definition search_knowledge :: "(string \<Rightarrow> string) \<Rightarrow> server \<Rightarrow> string \<Rightarrow> search_hit list" where
  "search_knowledge str_lower self query =
     search_categories str_lower (str_lower query) (knowledge_base self)"

text \<open>\<open>any(k.lower() in text for k in keywords)\<close> for one pattern.\<close>

definition keyword_hit :: "(string \<Rightarrow> string) \<Rightarrow> string \<Rightarrow> change_pattern \<Rightarrow> bool" where
  "keyword_hit str_lower text pattern =
     list_ex (\<lambda>k. py_in (str_lower k) text) (get_or (p_keywords pattern) [])"

text \<open>The \<open>for name, pattern in self.change_patterns.items()\<close> loop with its \<open>break\<close>.\<close>

fun find_match ::
  "(string \<Rightarrow> string) \<Rightarrow> string \<Rightarrow> (string \<times> change_pattern) list \<Rightarrow> (string \<times> change_pattern) option" where
  "find_match str_lower text [] = None"
| "find_match str_lower text ((name, pattern) # rest) =
     (if keyword_hit str_lower text pattern then Some (name, pattern)
      else find_match str_lower text rest)"

definition analyze_change ::
  "(string \<Rightarrow> string) \<Rightarrow> server \<Rightarrow> clock \<Rightarrow> string \<Rightarrow> analysis \<times> server" where
  "analyze_change str_lower self clk change_description =
     (let text = str_lower change_description
      in case find_match str_lower text (change_patterns self) of
           None \<Rightarrow>
             (empty_analysis\<lparr> a_risk_level := Some ''UNKNOWN'',
                               a_message := Some ''Unrecognized change pattern'',
                               a_recommendation := Some ''Manual review required'' \<rparr>,
              self)
         | Some (name, matched_pattern) \<Rightarrow>
             (let risk = get_or (p_risk_level matched_pattern) ''MEDIUM'';
                  risk_def = get_or (map_of (risk_definitions self) risk) [];
                  a = \<lparr> a_timestamp = Some (isoformat clk),
                        a_change_description = Some change_description,
                        a_matched_pattern = Some name,
                        a_risk_level = Some risk,
                        a_impact = Some (get_or (p_impacts matched_pattern) []),
                        a_safe_conditions = Some (get_or (p_safe_conditions matched_pattern) []),
                        a_safeguards = Some (get_or (p_safeguards matched_pattern) []),
                        a_risk_definition = Some risk_def,
                        a_requires_manual_review = Some (risk \<in> set [''HIGH'', ''CRITICAL'']),
                        a_message = None,
                        a_recommendation = None \<rparr>
              in (a, self\<lparr> metrics := record_analysis (metrics self) a \<rparr>)))"

record review_task =
  task_created :: bool
  t_reason :: "string option"
  task_type :: "string option"
  priority :: "string option"
  t_timestamp :: "string option"
  t_change_description :: "string option"
  t_risk_level :: "string option"
  t_note :: "string option"

text \<open>The note of a review task, as the bytes of the source file between the quotes.\<close>

definition advisory_note :: string where
  "advisory_note = ''Advisory only '' @
     [CHR 0xC3, CHR 0xA2, CHR 0xE2, CHR 0x82, CHR 0xAC, CHR 0xE2, CHR 0x80, CHR 0x9D] @
     '' no execution, no automation''"

definition create_review_task :: "clock \<Rightarrow> analysis \<Rightarrow> review_task" where
  "create_review_task clk a =
     (let risk = get_or (a_risk_level a) ''UNKNOWN''
      in if risk \<notin> set [''HIGH'', ''CRITICAL'']
         then \<lparr> task_created = False,
                t_reason = Some ''Risk level does not require manual review'',
                task_type = None, priority = None, t_timestamp = None,
                t_change_description = None, t_risk_level = None, t_note = None \<rparr>
         else \<lparr> task_created = True,
                t_reason = None,
                task_type = Some ''MANUAL_REVIEW_REQUIRED'',
                priority = Some (if risk = ''CRITICAL'' then ''HIGH'' else ''MEDIUM''),
                t_timestamp = Some (isoformat clk),
                t_change_description = a_change_description a,
                t_risk_level = Some risk,
                t_note = Some advisory_note \<rparr>)"

record supported_change =
  sc_name :: string
  sc_description :: string
  sc_risk_level :: string
  sc_example :: string

definition list_supported_changes :: "server \<Rightarrow> supported_change list" where
  "list_supported_changes self =
     map (\<lambda>(name, p). \<lparr> sc_name = name,
                          sc_description = get_or (p_description p) [],
                          sc_risk_level = get_or (p_risk_level p) ''MEDIUM'',
                          sc_example = get_or (p_example p) [] \<rparr>)
         (change_patterns self)"

section \<open>Tool and resource dispatch\<close>

datatype tool_call =
    SearchKnowledge string
  | AnalyzeChange string
  | CreateReviewTask analysis
  | ListSupportedChanges
  | GetAnalysisStatistics
  | CreateApprovalWorkflow analysis
  | ValidateDeploymentConfig deployment_config
  | ValidatePipelineStage string deployment_config
  | OtherTool string

datatype tool_output =
    Hits "search_hit list"
  | AnalysisOut analysis
  | ReviewTaskOut review_task
  | SupportedOut "supported_change list"
  | StatisticsOut statistics
  | ApprovalOut approval_chain
  | ValidationOut validation_result
  | StageValidationOut stage_validation

text \<open>
  \<open>call_tool\<close>: one branch per tool name; any other name raises \<open>ValueError\<close>. The server is
  returned with whatever the tool wrote to it.
\<close>

fun call_tool ::
  "(string \<Rightarrow> string) \<Rightarrow> server \<Rightarrow> clock \<Rightarrow> tool_call \<Rightarrow> (py_error + tool_output) \<times> server" where
  "call_tool str_lower self clk (SearchKnowledge query) = (Inr (Hits (search_knowledge str_lower self query)), self)"
| "call_tool str_lower self clk (AnalyzeChange change_description) =
     (case analyze_change str_lower self clk change_description of (a, self') \<Rightarrow> (Inr (AnalysisOut a), self'))"
| "call_tool str_lower self clk (CreateReviewTask a) = (Inr (ReviewTaskOut (create_review_task clk a)), self)"
| "call_tool str_lower self clk ListSupportedChanges = (Inr (SupportedOut (list_supported_changes self)), self)"
| "call_tool str_lower self clk GetAnalysisStatistics =
     (case get_statistics (metrics self) clk of
        (Inl err, m) \<Rightarrow> (Inl err, self\<lparr> metrics := m \<rparr>)
      | (Inr st, m) \<Rightarrow> (Inr (StatisticsOut st), self\<lparr> metrics := m \<rparr>))"
| "call_tool str_lower self clk (CreateApprovalWorkflow a) =
     (Inr (ApprovalOut (create_approval_chain (workflows self) clk a)), self)"
| "call_tool str_lower self clk (ValidateDeploymentConfig config) =
     (Inr (ValidationOut (validate_deployment_config config)), self)"
| "call_tool str_lower self clk (ValidatePipelineStage stage_name config) =
     (case validate_pipeline_stage stage_name config of
        Inl err \<Rightarrow> (Inl err, self)
      | Inr r \<Rightarrow> (Inr (StageValidationOut r), self))"
| "call_tool str_lower self clk (OtherTool name) = (Inl ValueError, self)"

datatype resource_value =
    KnowledgeBase "(string \<times> knowledge_item list) list"
  | ChangePatterns "(string \<times> change_pattern) list"
  | RiskDefinitions "(string \<times> attrs) list"
  | Attributes attrs
  | Workflows workflow_config
  | StatisticsValue statistics
  | EmptyDict

text \<open>
  \<open>read_resource\<close> builds the whole mapping before it looks the URI up, so it calls
  \<open>get_statistics\<close> whatever the URI is.
\<close>

definition read_resource :: "server \<Rightarrow> clock \<Rightarrow> string \<Rightarrow> (py_error + resource_value) \<times> server" where
  "read_resource self clk uri =
     (case get_statistics (metrics self) clk of
        (Inl err, m) \<Rightarrow> (Inl err, self\<lparr> metrics := m \<rparr>)
      | (Inr st, m) \<Rightarrow>
          (let mapping =
                 [(''config://knowledge_base'', KnowledgeBase (knowledge_base self)),
                  (''config://change_patterns'', ChangePatterns (change_patterns self)),
                  (''config://risk_definitions'', RiskDefinitions (risk_definitions self)),
                  (''config://intents'', Attributes (intents self)),
                  (''config://actions'', Attributes (actions self)),
                  (''config://persona'', Attributes (persona self)),
                  (''config://workflows'', Workflows (workflows self)),
                  (''metrics://statistics'', StatisticsValue st)]
           in (Inr (get_or (map_of mapping uri) EmptyDict), self\<lparr> metrics := m \<rparr>)))"

datatype request = CallTool tool_call | ReadResource string

text \<open>The server after one request, and after a sequence of requests each with its clock reading.\<close>

fun step :: "(string \<Rightarrow> string) \<Rightarrow> server \<Rightarrow> clock \<times> request \<Rightarrow> server" where
  "step str_lower self (clk, CallTool t) = snd (call_tool str_lower self clk t)"
| "step str_lower self (clk, ReadResource uri) = snd (read_resource self clk uri)"

definition run :: "(string \<Rightarrow> string) \<Rightarrow> server \<Rightarrow> (clock \<times> request) list \<Rightarrow> server" where
  "run str_lower self reqs = foldl (step str_lower) self reqs"

text \<open>The three counts of the collector that a statistics snapshot reports.\<close>

definition total_count :: "server \<Rightarrow> nat" where
  "total_count self = length (analyses (metrics self))"

definition risk_count :: "server \<Rightarrow> string \<Rightarrow> nat" where
  "risk_count self level = dd_count (risk_distribution (metrics self)) level"

definition usage_count :: "server \<Rightarrow> string \<Rightarrow> nat" where
  "usage_count self name = dd_count (pattern_usage (metrics self)) name"

section \<open>Requirements of a pipeline stage, as the specification words them\<close>

text \<open>
  The table of the specification: dev needs 1 replica and no health check, staging 2 replicas
  and a health check, production 3 replicas and a health check; every other name is treated
  as production.
\<close>

definition spec_stage_requirements :: "string \<Rightarrow> stage_requirements" where
  "spec_stage_requirements name =
     (if name = ''dev'' then \<lparr> min_replicas = 1, require_health_check = False \<rparr>
      else if name = ''staging'' then \<lparr> min_replicas = 2, require_health_check = True \<rparr>
      else \<lparr> min_replicas = 3, require_health_check = True \<rparr>)"

definition unmet_requirements :: "stage_requirements \<Rightarrow> deployment_config \<Rightarrow> nat" where
  "unmet_requirements reqs config =
     (if get_or (replicas config) 0 < min_replicas reqs then 1 else 0) +
     (if require_health_check reqs \<and> get_or (healthCheck config) [] = [] then 1 else 0)"

text \<open>The configured stages whose \<open>required_for\<close> contains a risk level, in configured order.\<close>

definition stages_requiring :: "workflow_config \<Rightarrow> string \<Rightarrow> stage list" where
  "stages_requiring wcfg risk =
     filter (\<lambda>s. risk \<in> set (get_or (st_required_for s) [])) (configured_stages wcfg)"

text \<open>The findings of a list that are about the field \<open>replicas\<close>.\<close>

definition on_replicas :: "finding list \<Rightarrow> finding list" where
  "on_replicas fs = filter (\<lambda>f. field f = ''replicas'') fs"

definition critical_finding :: finding where
  "critical_finding =
     \<lparr> severity = ''CRITICAL'', field = ''environment'',
       message = ''Production deployment has blocking issues'',
       recommendation = ''Resolve all HIGH severity issues before production deployment'' \<rparr>"

text \<open>The tools that the specification lists as read-only.\<close>

fun read_only_tool :: "tool_call \<Rightarrow> bool" where
  "read_only_tool (SearchKnowledge query) = True"
| "read_only_tool ListSupportedChanges = True"
| "read_only_tool (ValidateDeploymentConfig config) = True"
| "read_only_tool other = False"

section \<open>An example configuration\<close>

definition no_pattern :: change_pattern where
  "no_pattern =
     \<lparr> p_keywords = None, p_risk_level = None, p_impacts = None, p_safe_conditions = None,
       p_safeguards = None, p_description = None, p_example = None \<rparr>"

definition scale_up_pattern :: change_pattern where
  "scale_up_pattern =
     no_pattern\<lparr> p_keywords := Some [''increase replicas'', ''scale up''],
                  p_risk_level := Some ''LOW'' \<rparr>"

definition scale_down_pattern :: change_pattern where
  "scale_down_pattern =
     no_pattern\<lparr> p_keywords := Some [''Reduce Replicas'', ''scale down''],
                  p_risk_level := Some ''HIGH'',
                  p_impacts := Some [''Reduced fault tolerance''] \<rparr>"

definition feature_flag_pattern :: change_pattern where
  "feature_flag_pattern = no_pattern\<lparr> p_keywords := Some [''feature flag''] \<rparr>"

definition example_patterns :: "(string \<times> change_pattern) list" where
  "example_patterns =
     [(''scale_up_replicas'', scale_up_pattern),
      (''scale_down_replicas'', scale_down_pattern),
      (''feature_flag'', feature_flag_pattern)]"

definition example_stages :: "stage list" where
  "example_stages =
     [\<lparr> st_name = Some ''peer_review'', st_description = Some ''Peer review'',
        st_auto_approve = None, st_approvers = Some [''team''],
        st_required_for = Some [''MEDIUM'', ''HIGH'', ''CRITICAL''] \<rparr>,
      \<lparr> st_name = Some ''auto_check'', st_description = None,
        st_auto_approve = Some True, st_approvers = None,
        st_required_for = Some [''LOW''] \<rparr>,
      \<lparr> st_name = Some ''director'', st_description = None,
        st_auto_approve = None, st_approvers = Some [''director''],
        st_required_for = Some [''CRITICAL''] \<rparr>]"

definition example_workflows :: workflow_config where
  "example_workflows = \<lparr> approval_workflow = Some \<lparr> stages = Some example_stages \<rparr> \<rparr>"

definition example_server :: server where
  "example_server =
     \<lparr> knowledge_base =
         [(''availability'',
           [\<lparr> k_title = Some ''Replica counts'', k_content = Some ''Keep three replicas'' \<rparr>,
            \<lparr> k_title = Some ''Backups'', k_content = None \<rparr>])],
       change_patterns = example_patterns,
       risk_definitions = [(''HIGH'', [(''description'', ''Likely outage'')])],
       intents = [], actions = [], persona = [],
       workflows = example_workflows,
       metrics = new_metrics 0 \<rparr>"

definition example_clock :: clock where
  "example_clock =
     \<lparr> utcnow = 1000000, isoformat = ''2026-01-01T00:00:01'', strftime = ''20260101000001'' \<rparr>"

definition later_clock :: clock where
  "later_clock =
     \<lparr> utcnow = 61000000, isoformat = ''2026-01-01T00:01:01'', strftime = ''20260101000101'' \<rparr>"

definition analysis_of_level :: "string \<Rightarrow> analysis" where
  "analysis_of_level level =
     empty_analysis\<lparr> a_risk_level := Some level, a_change_description := Some ''a change'' \<rparr>"

definition example_config :: deployment_config where
  "example_config =
     \<lparr> replicas = Some 1, resources = None, healthCheck = Some [(''path'', ''/healthz'')],
       environment = Some ''production'' \<rparr>"

text \<open>
  A configuration with a keyword outside ASCII: \<open>MISE A JOUR\<close> with a grave accent on the
  \<open>A\<close>, whose UTF-8 encoding is the bytes C3 80, and a text with the lower-case letter,
  encoded C3 A0. \<open>lower_a_grave\<close> is an instance of \<open>str_lower\<close> that folds this letter as
  \<open>str.lower\<close> does, besides the ASCII letters.
\<close>

fun lower_a_grave :: "string \<Rightarrow> string" where
  "lower_a_grave [] = []"
| "lower_a_grave [c] = [lower_char c]"
| "lower_a_grave (a # b # cs) =
     (if a = CHR 0xC3 \<and> b = CHR 0x80 then CHR 0xC3 # CHR 0xA0 # lower_a_grave cs
      else lower_char a # lower_a_grave (b # cs))"

definition accent_patterns :: "(string \<times> change_pattern) list" where
  "accent_patterns =
     [(''maj'',
       no_pattern\<lparr> p_keywords := Some [''MISE '' @ [CHR 0xC3, CHR 0x80] @ '' JOUR''],
                    p_risk_level := Some ''HIGH'' \<rparr>),
      (''cluster'',
       no_pattern\<lparr> p_keywords := Some [''cluster''], p_risk_level := Some ''LOW'' \<rparr>)]"

definition accent_server :: server where
  "accent_server = example_server\<lparr> change_patterns := accent_patterns \<rparr>"

definition accent_text :: string where
  "accent_text = ''mise '' @ [CHR 0xC3, CHR 0xA0] @ '' jour du cluster''"


section \<open>Facts about the primitives\<close>

lemma startswith_prefix: "startswith t k = prefix k t"
  by (induction t k rule: startswith.induct) auto

text \<open>\<open>py_in\<close> is the contiguous-sublist relation of the library.\<close>

lemma py_in_sublist: "py_in k t = sublist k t"
  by (induction t) (auto simp: startswith_prefix sublist_Cons_right)

lemma dd_count_incr:
  "dd_count (dd_incr d k) k' = (if k' = k then dd_count d k + 1 else dd_count d k')"
  by (induction d) (auto simp: dd_count_def)

lemma dd_count_getitem: "dd_count (snd (dd_getitem d k)) k' = dd_count d k'"
  by (auto simp: dd_count_def dd_getitem_def map_add_def split: option.splits if_splits)

section \<open>The classifier and the risk analyzer\<close>

lemma find_match_none:
  "find_match str_lower text ps = None \<longleftrightarrow> \<not> list_ex (\<lambda>(n, q). keyword_hit str_lower text q) ps"
  by (induction ps) (auto split: if_splits)

lemma find_match_first:
  "\<not> list_ex (\<lambda>(n, q). keyword_hit str_lower text q) before \<Longrightarrow> keyword_hit str_lower text P \<Longrightarrow>
   find_match str_lower text (before @ (name, P) # rest) = Some (name, P)"
  by (induction before) auto

text \<open>
  When no pattern matches, \<open>analyze_change\<close> returns before it reaches
  \<open>record_analysis\<close>: the server, and with it the collector, is returned as it was.
\<close>

lemma analyze_change_no_match:
  "find_match str_lower (str_lower d) (change_patterns self) = None \<Longrightarrow>
   analyze_change str_lower self clk d =
     (empty_analysis\<lparr> a_risk_level := Some ''UNKNOWN'',
                       a_message := Some ''Unrecognized change pattern'',
                       a_recommendation := Some ''Manual review required'' \<rparr>, self)"
  by (simp add: analyze_change_def)

lemma analyze_change_match:
  "find_match str_lower (str_lower d) (change_patterns self) = Some (name, P) \<Longrightarrow>
   a_matched_pattern (fst (analyze_change str_lower self clk d)) = Some name \<and>
   a_risk_level (fst (analyze_change str_lower self clk d)) = Some (get_or (p_risk_level P) ''MEDIUM'')"
  by (simp add: analyze_change_def Let_def)

text \<open>
  Claim C1. A description in which no keyword of any configured pattern occurs is answered
  with risk level UNKNOWN, and the claim adds that the UNKNOWN counter of the collector
  goes up by one. On the example server the description \<open>rename the team wiki\<close> matches no
  pattern: the answer is UNKNOWN, but the UNKNOWN counter is 0 before and 0 after, and the
  whole server is unchanged. The text and the keywords of the example are ASCII, where
  \<open>str.lower\<close> is the folding \<open>lower\<close>; \<open>analyze_change_no_match\<close> above is the same fact
  for every lower-casing function and every server.
\<close>

theorem analyze_change_unknown_not_recorded:
  "a_risk_level (fst (analyze_change lower example_server example_clock ''rename the team wiki'')) = Some ''UNKNOWN''
   \<and> risk_count example_server ''UNKNOWN'' = 0
   \<and> risk_count (snd (analyze_change lower example_server example_clock ''rename the team wiki'')) ''UNKNOWN'' = 0
   \<and> snd (analyze_change lower example_server example_clock ''rename the team wiki'') = example_server"
proof -
  have "find_match lower (lower ''rename the team wiki'') (change_patterns example_server) = None"
    by code_simp
  then have "analyze_change lower example_server example_clock ''rename the team wiki'' =
     (empty_analysis\<lparr> a_risk_level := Some ''UNKNOWN'',
                       a_message := Some ''Unrecognized change pattern'',
                       a_recommendation := Some ''Manual review required'' \<rparr>, example_server)"
    by (rule analyze_change_no_match)
  moreover have "risk_count example_server ''UNKNOWN'' = 0"
    by code_simp
  ultimately show ?thesis
    by simp
qed

text \<open>
  Claim C2. First match wins: if the lower-cased text contains a lower-cased keyword of the
  pattern \<open>P\<close> stored under \<open>name\<close>, and contains no keyword of any pattern before it in the
  configured order, then \<open>analyze_change\<close> returns \<open>name\<close> as the matched pattern and the
  risk level of \<open>P\<close> (which reads as MEDIUM when \<open>P\<close> has no risk level). This holds
  whatever the lower-casing function is, so it holds for \<open>str.lower\<close> on every text.
\<close>

theorem analyze_change_first_match:
  assumes "change_patterns self = before @ (name, P) # rest"
    and "\<exists>k \<in> set (get_or (p_keywords P) []). py_in (str_lower k) (str_lower text)"
    and "\<not> (\<exists>(n, Q) \<in> set before. \<exists>k \<in> set (get_or (p_keywords Q) []). py_in (str_lower k) (str_lower text))"
  shows "a_matched_pattern (fst (analyze_change str_lower self clk text)) = Some name \<and>
         a_risk_level (fst (analyze_change str_lower self clk text)) = Some (get_or (p_risk_level P) ''MEDIUM'')"
proof -
  have hit: "keyword_hit str_lower (str_lower text) P"
    using assms(2) by (simp add: keyword_hit_def list_ex_iff)
  have miss: "\<not> list_ex (\<lambda>(n, q). keyword_hit str_lower (str_lower text) q) before"
    using assms(3) by (auto simp: keyword_hit_def list_ex_iff)
  have "find_match str_lower (str_lower text) (change_patterns self) = Some (name, P)"
    unfolding assms(1) using miss hit by (rule find_match_first)
  then show ?thesis by (rule analyze_change_match)
qed

theorem analyze_change_first_match_witness:
  "change_patterns example_server =
     [(''scale_up_replicas'', scale_up_pattern)] @
     (''scale_down_replicas'', scale_down_pattern) # [(''feature_flag'', feature_flag_pattern)]
   \<and> py_in (lower ''Reduce Replicas'') (lower ''What happens if I reduce replicas from 3 to 1?'')
   \<and> a_matched_pattern (fst (analyze_change lower example_server example_clock
        ''What happens if I reduce replicas from 3 to 1?'')) = Some ''scale_down_replicas''
   \<and> a_risk_level (fst (analyze_change lower example_server example_clock
        ''What happens if I reduce replicas from 3 to 1?'')) = Some ''HIGH''"
proof -
  let ?text = "''What happens if I reduce replicas from 3 to 1?''"
  have order: "change_patterns example_server =
     [(''scale_up_replicas'', scale_up_pattern)] @
     (''scale_down_replicas'', scale_down_pattern) # [(''feature_flag'', feature_flag_pattern)]"
    by (simp add: example_server_def example_patterns_def)
  have occurs: "py_in (lower ''Reduce Replicas'') (lower ?text)"
    by code_simp
  have "keyword_hit lower (lower ?text) scale_down_pattern"
    by code_simp
  then have hit: "\<exists>k \<in> set (get_or (p_keywords scale_down_pattern) []). py_in (lower k) (lower ?text)"
    by (simp add: keyword_hit_def list_ex_iff)
  have "\<not> keyword_hit lower (lower ?text) scale_up_pattern"
    by code_simp
  then have miss: "\<not> (\<exists>(n, Q) \<in> set [(''scale_up_replicas'', scale_up_pattern)].
                 \<exists>k \<in> set (get_or (p_keywords Q) []). py_in (lower k) (lower ?text))"
    by (simp add: keyword_hit_def list_ex_iff)
  have level: "get_or (p_risk_level scale_down_pattern) ''MEDIUM'' = ''HIGH''"
    by code_simp
  show ?thesis
    using analyze_change_first_match [where str_lower = lower, OF order hit miss, of example_clock] order occurs level
    by simp
qed

text \<open>
  With a keyword outside ASCII the lower-casing function decides the match. On the text
  \<open>mise a jour du cluster\<close> (accented) a function that folds the accented letter, as
  \<open>str.lower\<close> does, finds the first pattern; the ASCII folding alone would miss it and
  find the second.
\<close>

lemma accent_keyword_matches:
  "a_matched_pattern (fst (analyze_change lower_a_grave accent_server example_clock accent_text)) = Some ''maj''
   \<and> a_risk_level (fst (analyze_change lower_a_grave accent_server example_clock accent_text)) = Some ''HIGH''"
  by code_simp

lemma ascii_folding_misses_accent:
  "a_matched_pattern (fst (analyze_change lower accent_server example_clock accent_text)) = Some ''cluster''"
  by code_simp

section \<open>The review and approval planner\<close>

text \<open>
  Claim C3. A review task is created exactly when the risk level of the record is HIGH or
  CRITICAL; its priority is then HIGH for CRITICAL and MEDIUM for HIGH, and there is no
  priority otherwise. A record without a risk level is treated as one with UNKNOWN and
  gets no task.
\<close>

theorem create_review_task_decision:
  "task_created (create_review_task clk a) =
     (a_risk_level a = Some ''HIGH'' \<or> a_risk_level a = Some ''CRITICAL'')
   \<and> priority (create_review_task clk a) =
     (if a_risk_level a = Some ''CRITICAL'' then Some ''HIGH''
      else if a_risk_level a = Some ''HIGH'' then Some ''MEDIUM'' else None)
   \<and> create_review_task clk (a\<lparr> a_risk_level := None \<rparr>) =
     create_review_task clk (a\<lparr> a_risk_level := Some ''UNKNOWN'' \<rparr>)
   \<and> \<not> task_created (create_review_task clk (a\<lparr> a_risk_level := None \<rparr>))"
  by (cases "a_risk_level a") (simp_all add: create_review_task_def get_or_def Let_def)

theorem create_review_task_decision_witness:
  "task_created (create_review_task example_clock (analysis_of_level ''HIGH''))
   \<and> priority (create_review_task example_clock (analysis_of_level ''HIGH'')) = Some ''MEDIUM''
   \<and> priority (create_review_task example_clock (analysis_of_level ''CRITICAL'')) = Some ''HIGH''
   \<and> \<not> task_created (create_review_task example_clock (analysis_of_level ''LOW''))
   \<and> \<not> task_created (create_review_task example_clock empty_analysis)"
  using create_review_task_decision [of example_clock "analysis_of_level ''HIGH''"]
    create_review_task_decision [of example_clock "analysis_of_level ''CRITICAL''"]
    create_review_task_decision [of example_clock "analysis_of_level ''LOW''"]
    create_review_task_decision [of example_clock empty_analysis]
  by (simp add: analysis_of_level_def empty_analysis_def create_review_task_def get_or_def)

lemma required_loop_filter:
  "required_loop risk stgs acc =
     acc @ map required_entry (filter (\<lambda>s. risk \<in> set (get_or (st_required_for s) [])) stgs)"
  by (induction stgs arbitrary: acc) (simp_all add: Let_def)

lemma get_required_approvals_filter:
  "get_required_approvals wcfg risk = map required_entry (stages_requiring wcfg risk)"
  by (simp add: get_required_approvals_def stages_requiring_def required_loop_filter)

text \<open>
  Claim C4. An approval chain requires approval exactly when some configured stage lists
  the risk level of the record in \<open>required_for\<close>; the stages it returns are then all the
  configured stages that list it, in configured order, each reduced to its name,
  description, auto-approve flag and approvers. Without such a stage no stage list is
  returned.
\<close>

theorem create_approval_chain_selection:
  "requires_approval (create_approval_chain wcfg clk a) =
     (\<exists>s \<in> set (configured_stages wcfg).
        get_or (a_risk_level a) ''UNKNOWN'' \<in> set (get_or (st_required_for s) []))
   \<and> approval_stages (create_approval_chain wcfg clk a) =
     (if stages_requiring wcfg (get_or (a_risk_level a) ''UNKNOWN'') = [] then None
      else Some (map required_entry (stages_requiring wcfg (get_or (a_risk_level a) ''UNKNOWN''))))"
  by (auto simp: create_approval_chain_def get_required_approvals_filter Let_def
      stages_requiring_def filter_empty_conv)

theorem create_approval_chain_selection_witness:
  "requires_approval (create_approval_chain example_workflows example_clock (analysis_of_level ''CRITICAL''))
   \<and> map ra_stage (the (approval_stages
        (create_approval_chain example_workflows example_clock (analysis_of_level ''CRITICAL'')))) =
      [Some ''peer_review'', Some ''director'']
   \<and> \<not> requires_approval (create_approval_chain example_workflows example_clock (analysis_of_level ''UNKNOWN''))"
  using create_approval_chain_selection [of example_workflows example_clock "analysis_of_level ''CRITICAL''"]
    create_approval_chain_selection [of example_workflows example_clock "analysis_of_level ''UNKNOWN''"]
  by (simp add: analysis_of_level_def empty_analysis_def get_or_def stages_requiring_def
      configured_stages_def example_workflows_def example_stages_def required_entry_def)

text \<open>
  Claim C5, as stated, fails on the literals: with one or two required stages the code
  returns \<open>Same day\<close> with a capital S, not \<open>same day\<close> (and likewise
  \<open>Within 24 hours\<close>). The example chain for a HIGH change has one required stage.
\<close>

theorem estimate_same_day_capitalised:
  "estimated_approval_time
     (create_approval_chain example_workflows example_clock (analysis_of_level ''HIGH'')) = Some ''Same day''
   \<and> estimated_approval_time
     (create_approval_chain example_workflows example_clock (analysis_of_level ''HIGH'')) \<noteq> Some ''same day''"
  by (simp add: create_approval_chain_def get_required_approvals_def configured_stages_def
      example_workflows_def example_stages_def analysis_of_level_def empty_analysis_def
      get_or_def estimate_approval_time_def Let_def)

text \<open>
  Claim C5, amended. For a record whose risk level is listed by \<open>n > 0\<close> configured
  stages, the estimated approval time is computed from \<open>hours = 2 * n\<close>: \<open>Same day\<close>
  when \<open>hours \<le> 4\<close>, \<open>Within 24 hours\<close> when \<open>4 < hours \<le> 24\<close>, and otherwise
  \<open>N business days\<close> with \<open>N = hours div 24\<close>.
\<close>

theorem estimated_approval_time_by_stage_count:
  assumes "stages_requiring wcfg (get_or (a_risk_level a) ''UNKNOWN'') \<noteq> []"
  shows "estimated_approval_time (create_approval_chain wcfg clk a) =
     Some (let n = length (stages_requiring wcfg (get_or (a_risk_level a) ''UNKNOWN''));
               hours = 2 * n
           in if hours \<le> 4 then ''Same day''
              else if hours \<le> 24 then ''Within 24 hours''
              else str_nat (hours div 24) @ '' business days'')"
  using assms
  by (simp add: create_approval_chain_def get_required_approvals_filter Let_def
      estimate_approval_time_def mult.commute)

theorem estimated_approval_time_by_stage_count_witness:
  "stages_requiring example_workflows (get_or (a_risk_level (analysis_of_level ''CRITICAL'')) ''UNKNOWN'') \<noteq> []
   \<and> estimated_approval_time
       (create_approval_chain example_workflows example_clock (analysis_of_level ''CRITICAL'')) = Some ''Same day''"
proof -
  have ne: "stages_requiring example_workflows (get_or (a_risk_level (analysis_of_level ''CRITICAL'')) ''UNKNOWN'') \<noteq> []"
    by (simp add: stages_requiring_def configured_stages_def example_workflows_def
        example_stages_def analysis_of_level_def empty_analysis_def get_or_def)
  show ?thesis
    using estimated_approval_time_by_stage_count [OF ne, of example_clock] ne
    by (simp add: stages_requiring_def configured_stages_def example_workflows_def
        example_stages_def analysis_of_level_def empty_analysis_def get_or_def Let_def)
qed

lemma estimate_thirteen_stages:
  "estimate_approval_time (replicate 13 r) = ''1 business days''"
  by (simp add: estimate_approval_time_def digit_char_def)

lemma estimate_three_stages:
  "estimate_approval_time (replicate 3 r) = ''Within 24 hours''"
  by (simp add: estimate_approval_time_def)

section \<open>The deployment configuration validator\<close>

lemma on_replicas_append: "on_replicas (xs @ ys) = on_replicas xs @ on_replicas ys"
  by (simp add: on_replicas_def)

lemma check_replicas_on_replicas:
  "map severity (on_replicas (fst (check_replicas config ([], [])))) =
     (if get_or (replicas config) 0 < 2 then [''HIGH''] else [])"
  "map severity (on_replicas (snd (check_replicas config ([], [])))) =
     (if get_or (replicas config) 0 = 2 then [''MEDIUM''] else [])"
  by (auto simp: check_replicas_def on_replicas_def Let_def)

lemma check_limits_on_replicas:
  "on_replicas (fst (check_limits config acc)) = on_replicas (fst acc)"
  "on_replicas (snd (check_limits config acc)) = on_replicas (snd acc)"
  by (cases acc; simp add: check_limits_def on_replicas_def Let_def)+

lemma check_health_on_replicas:
  "on_replicas (fst (check_health config acc)) = on_replicas (fst acc)"
  "on_replicas (snd (check_health config acc)) = on_replicas (snd acc)"
  by (cases acc; simp add: check_health_def on_replicas_def Let_def)+

lemma check_environment_on_replicas:
  "on_replicas (fst (check_environment config acc)) = on_replicas (fst acc)"
  "on_replicas (snd (check_environment config acc)) = on_replicas (snd acc)"
  by (cases acc; simp add: check_environment_def on_replicas_def Let_def)+

lemma validate_issues_warnings:
  "issues (validate_deployment_config config) = fst (check_environment config (rules_1_to_3 config))"
  "warnings (validate_deployment_config config) = snd (check_environment config (rules_1_to_3 config))"
  by (cases "check_environment config (rules_1_to_3 config)";
      simp add: validate_deployment_config_def)+

lemma replica_findings:
  "map severity (on_replicas (issues (validate_deployment_config config))) =
     (if get_or (replicas config) 0 < 2 then [''HIGH''] else [])"
  "map severity (on_replicas (warnings (validate_deployment_config config))) =
     (if get_or (replicas config) 0 = 2 then [''MEDIUM''] else [])"
  by (simp_all only: validate_issues_warnings rules_1_to_3_def check_environment_on_replicas
      check_health_on_replicas check_limits_on_replicas check_replicas_on_replicas)

text \<open>
  Claim C6. The replica rule is exclusive. Among the issues, the ones on the field
  \<open>replicas\<close> are exactly one HIGH issue when the replica count is below 2 and none
  otherwise; among the warnings, the ones on that field are exactly one MEDIUM warning
  when the count is 2 and none otherwise; so a count of 3 or more gives neither. A
  configuration without a replica count is read as 0 and gets the HIGH issue.
\<close>

theorem replica_rule_exclusive:
  "map severity (on_replicas (issues (validate_deployment_config config))) =
     (if get_or (replicas config) 0 < 2 then [''HIGH''] else [])
   \<and> map severity (on_replicas (warnings (validate_deployment_config config))) =
     (if get_or (replicas config) 0 = 2 then [''MEDIUM''] else [])
   \<and> map severity (on_replicas (issues (validate_deployment_config (config\<lparr> replicas := None \<rparr>)))) = [''HIGH'']
   \<and> on_replicas (warnings (validate_deployment_config (config\<lparr> replicas := None \<rparr>))) = []"
proof -
  have absent: "get_or (replicas (config\<lparr> replicas := None \<rparr>)) 0 = 0"
    by (simp add: get_or_def)
  have "map severity (on_replicas (warnings (validate_deployment_config (config\<lparr> replicas := None \<rparr>)))) = []"
    by (simp only: replica_findings absent) simp
  then have none: "on_replicas (warnings (validate_deployment_config (config\<lparr> replicas := None \<rparr>))) = []"
    by simp
  have high: "map severity (on_replicas (issues (validate_deployment_config (config\<lparr> replicas := None \<rparr>)))) = [''HIGH'']"
    by (simp only: replica_findings absent) simp
  show ?thesis
    using replica_findings [of config] high none by blast
qed

theorem replica_rule_exclusive_witness:
  "map severity (on_replicas (issues (validate_deployment_config (example_config\<lparr> replicas := Some 1 \<rparr>)))) = [''HIGH'']
   \<and> on_replicas (warnings (validate_deployment_config (example_config\<lparr> replicas := Some 1 \<rparr>))) = []
   \<and> on_replicas (issues (validate_deployment_config (example_config\<lparr> replicas := Some 2 \<rparr>))) = []
   \<and> map severity (on_replicas (warnings (validate_deployment_config (example_config\<lparr> replicas := Some 2 \<rparr>)))) = [''MEDIUM'']
   \<and> on_replicas (issues (validate_deployment_config (example_config\<lparr> replicas := Some 3 \<rparr>))) = []
   \<and> on_replicas (warnings (validate_deployment_config (example_config\<lparr> replicas := Some 3 \<rparr>))) = []"
proof -
  show ?thesis
    using replica_rule_exclusive [of "example_config\<lparr> replicas := Some 1 \<rparr>"]
      replica_rule_exclusive [of "example_config\<lparr> replicas := Some 2 \<rparr>"]
      replica_rule_exclusive [of "example_config\<lparr> replicas := Some 3 \<rparr>"]
    by (simp add: get_or_def)
qed

lemma check_environment_eq:
  "check_environment config (iss, wrn) =
     (iss @ (if environment config = Some ''production'' \<and> iss \<noteq> [] then [critical_finding] else []), wrn)"
  by (cases "environment config") (simp_all add: check_environment_def critical_finding_def get_or_def)

text \<open>
  Claim C7. The environment rule runs after the first three rules, on the issues they
  left: in production with at least one such issue, one CRITICAL issue is appended and the
  recommendation is \<open>BLOCK DEPLOYMENT\<close>. In every case the result is valid exactly when it
  has no issue, and the recommendation is \<open>BLOCK DEPLOYMENT\<close> with an issue,
  \<open>PROCEED WITH CAUTION\<close> with only warnings, and \<open>APPROVED\<close> with neither.
\<close>

theorem production_blocking_and_verdict:
  "issues (validate_deployment_config config) =
     fst (rules_1_to_3 config) @
     (if environment config = Some ''production'' \<and> fst (rules_1_to_3 config) \<noteq> []
      then [critical_finding] else [])
   \<and> warnings (validate_deployment_config config) = snd (rules_1_to_3 config)
   \<and> valid (validate_deployment_config config) = (issues (validate_deployment_config config) = [])
   \<and> v_recommendation (validate_deployment_config config) =
     (if issues (validate_deployment_config config) \<noteq> [] then ''BLOCK DEPLOYMENT''
      else if warnings (validate_deployment_config config) \<noteq> [] then ''PROCEED WITH CAUTION''
      else ''APPROVED'')
   \<and> (environment config = Some ''production'' \<and> fst (rules_1_to_3 config) \<noteq> [] \<longrightarrow>
        v_recommendation (validate_deployment_config config) = ''BLOCK DEPLOYMENT'')"
proof -
  obtain iss wrn where acc: "rules_1_to_3 config = (iss, wrn)"
    by (cases "rules_1_to_3 config")
  show ?thesis
    by (simp add: validate_deployment_config_def acc check_environment_eq)
qed

theorem production_blocking_and_verdict_witness:
  "environment example_config = Some ''production''
   \<and> map field (fst (rules_1_to_3 example_config)) = [''replicas'']
   \<and> map severity (issues (validate_deployment_config example_config)) = [''HIGH'', ''CRITICAL'']
   \<and> v_recommendation (validate_deployment_config example_config) = ''BLOCK DEPLOYMENT''
   \<and> \<not> valid (validate_deployment_config example_config)"
proof -
  have env: "environment example_config = Some ''production''"
    by code_simp
  have pre: "map field (fst (rules_1_to_3 example_config)) = [''replicas'']"
    by code_simp
  have sev: "map severity (fst (rules_1_to_3 example_config)) = [''HIGH'']"
    by code_simp
  have crit: "severity critical_finding = ''CRITICAL''"
    by (simp add: critical_finding_def)
  have ne: "fst (rules_1_to_3 example_config) \<noteq> []"
    using pre by auto
  show ?thesis
    using production_blocking_and_verdict [of example_config] env pre sev crit ne
    by simp
qed

lemma stage_lookup:
  "get_or (map_of stage_configs name) \<lparr> min_replicas = 3, require_health_check = True \<rparr> =
     spec_stage_requirements name"
  by (simp add: stage_configs_def spec_stage_requirements_def get_or_def)

lemma validate_pipeline_stage_unfold:
  "validate_pipeline_stage stage_name config =
     (let reqs = spec_stage_requirements (lower stage_name);
          iss1 = (if get_or (replicas config) 0 < min_replicas reqs
                  then [\<lparr> si_severity = ''HIGH'',
                          si_message = stage_name @ '' requires at least '' @
                            str_int (min_replicas reqs) @ '' replicas'' \<rparr>]
                  else []);
          iss2 = (if require_health_check reqs \<and> get_or (healthCheck config) [] = []
                  then iss1 @ [\<lparr> si_severity = ''HIGH'',
                                 si_message = stage_name @ '' requires health check configuration'' \<rparr>]
                  else iss1)
      in Inr \<lparr> sv_stage = stage_name, sv_valid = (iss2 = []), sv_issues = iss2 \<rparr>)"
proof -
  have fallback: "dict_getitem stage_configs ''production'' =
      Inr \<lparr> min_replicas = 3, require_health_check = True \<rparr>"
    by (simp add: dict_getitem_def stage_configs_def)
  have hc: "(case healthCheck config of None \<Rightarrow> True | Some h \<Rightarrow> h = []) =
      (get_or (healthCheck config) [] = [])"
    by (simp add: get_or_def split: option.splits)
  show ?thesis
    by (simp add: validate_pipeline_stage_def fallback stage_lookup hc Let_def)
qed

text \<open>
  Claim C8. \<open>validate_pipeline_stage\<close> never raises. It reads the requirements of the
  lower-cased stage name from the table dev (1 replica, no health check), staging
  (2 replicas, health check), production (3 replicas, health check), and any other name
  gets the production requirements. It returns one HIGH issue per unmet requirement and
  is valid exactly when there is no issue.
\<close>

theorem validate_pipeline_stage_table:
  "\<exists>r. validate_pipeline_stage stage_name config = Inr r
      \<and> sv_stage r = stage_name
      \<and> length (sv_issues r) = unmet_requirements (spec_stage_requirements (lower stage_name)) config
      \<and> list_all (\<lambda>i. si_severity i = ''HIGH'') (sv_issues r)
      \<and> sv_valid r = (sv_issues r = [])
      \<and> (lower stage_name \<notin> {''dev'', ''staging'', ''production''} \<longrightarrow>
           map si_severity (sv_issues r) =
           map si_severity (sv_issues (projr (validate_pipeline_stage ''production'' config))))"
proof -
  have prod: "lower ''production'' = ''production''"
    by (simp add: lower_def lower_char_def)
  have other: "lower stage_name \<notin> {''dev'', ''staging'', ''production''} \<Longrightarrow>
      spec_stage_requirements (lower stage_name) = spec_stage_requirements ''production''"
    by (simp add: spec_stage_requirements_def)
  show ?thesis
    using other
    by (auto simp: validate_pipeline_stage_unfold [of stage_name]
        validate_pipeline_stage_unfold [of "''production''"] prod Let_def unmet_requirements_def)
qed

theorem validate_pipeline_stage_table_witness:
  "lower ''Canary'' \<notin> {''dev'', ''staging'', ''production''}
   \<and> (\<exists>r. validate_pipeline_stage ''Canary'' example_config = Inr r
        \<and> map si_severity (sv_issues r) = [''HIGH''] \<and> \<not> sv_valid r)
   \<and> (\<exists>r. validate_pipeline_stage ''DEV'' example_config = Inr r \<and> sv_valid r)"
  using validate_pipeline_stage_table [of "''Canary''" example_config]
    validate_pipeline_stage_table [of "''DEV''" example_config]
  by (simp add: validate_pipeline_stage_def dict_getitem_def stage_configs_def get_or_def
      example_config_def lower_def lower_char_def Let_def)

section \<open>Requests and the state of the server\<close>

text \<open>
  Claim C9. \<open>search_knowledge\<close>, \<open>list_supported_changes\<close> and
  \<open>validate_deployment_config\<close> are read-only: a call returns the server as it was, a
  second call with the same input, at any later clock reading, returns the same result and
  the same server, and the result does not depend on what the collector holds. This holds
  for every lower-casing function.
\<close>

theorem read_only_tools_idempotent:
  assumes "read_only_tool t"
  shows "snd (call_tool str_lower self clk t) = self
       \<and> call_tool str_lower (snd (call_tool str_lower self clk t)) clk' t = call_tool str_lower self clk t
       \<and> fst (call_tool str_lower (self\<lparr> metrics := m \<rparr>) clk' t) = fst (call_tool str_lower self clk t)"
  using assms
  by (cases t) (simp_all add: search_knowledge_def list_supported_changes_def)

theorem read_only_tools_idempotent_witness:
  "read_only_tool (SearchKnowledge ''REPLICA'')
   \<and> snd (call_tool lower example_server example_clock (SearchKnowledge ''REPLICA'')) = example_server
   \<and> call_tool lower example_server later_clock (SearchKnowledge ''REPLICA'') =
     call_tool lower example_server example_clock (SearchKnowledge ''REPLICA'')
   \<and> search_knowledge lower example_server ''REPLICA'' =
     [\<lparr> h_category = ''availability'', h_title = Some ''Replica counts'',
        h_content = Some ''Keep three replicas'' \<rparr>]"
proof -
  have ro: "read_only_tool (SearchKnowledge ''REPLICA'')" by simp
  have hits: "search_knowledge lower example_server ''REPLICA'' =
      [\<lparr> h_category = ''availability'', h_title = Some ''Replica counts'',
         h_content = Some ''Keep three replicas'' \<rparr>]"
    by code_simp
  show ?thesis
    using read_only_tools_idempotent [OF ro, of lower example_server example_clock later_clock] hits
    by simp
qed

lemma record_analysis_counts:
  "length (analyses (record_analysis m a)) = length (analyses m) + 1"
  "dd_count (risk_distribution m) l \<le> dd_count (risk_distribution (record_analysis m a)) l"
  "dd_count (pattern_usage m) n \<le> dd_count (pattern_usage (record_analysis m a)) n"
  by (simp_all add: record_analysis_def Let_def dd_count_incr split: option.splits)

lemma get_statistics_state:
  "snd (get_statistics m clk) =
     m\<lparr> risk_distribution :=
          snd (dd_getitem (snd (dd_getitem (risk_distribution m) ''HIGH'')) ''CRITICAL'') \<rparr>"
  by (simp add: get_statistics_def Let_def split: prod.splits sum.splits)

lemma get_statistics_counts:
  "analyses (snd (get_statistics m clk)) = analyses m"
  "pattern_usage (snd (get_statistics m clk)) = pattern_usage m"
  "dd_count (risk_distribution (snd (get_statistics m clk))) l = dd_count (risk_distribution m) l"
  by (simp_all add: get_statistics_state dd_count_getitem)

lemma analyze_change_state:
  "snd (analyze_change str_lower self clk d) = self \<or>
   (\<exists>a. snd (analyze_change str_lower self clk d) = self\<lparr> metrics := record_analysis (metrics self) a \<rparr>)"
proof (cases "find_match str_lower (str_lower d) (change_patterns self)")
  case None
  then show ?thesis by (simp add: analyze_change_def)
next
  case (Some np)
  then show ?thesis
    by (cases np) (simp add: analyze_change_def Let_def, blast)
qed

lemma call_tool_state:
  "snd (call_tool str_lower self clk t) = self
   \<or> (\<exists>a. snd (call_tool str_lower self clk t) = self\<lparr> metrics := record_analysis (metrics self) a \<rparr>)
   \<or> snd (call_tool str_lower self clk t) = self\<lparr> metrics := snd (get_statistics (metrics self) clk) \<rparr>"
proof (cases t)
  case (AnalyzeChange d)
  have "snd (call_tool str_lower self clk (AnalyzeChange d)) = snd (analyze_change str_lower self clk d)"
    by (cases "analyze_change str_lower self clk d") simp
  then show ?thesis
    using analyze_change_state [of str_lower self clk d] AnalyzeChange by auto
next
  case GetAnalysisStatistics
  obtain r m where g: "get_statistics (metrics self) clk = (r, m)"
    by (cases "get_statistics (metrics self) clk")
  then show ?thesis
    using GetAnalysisStatistics by (cases r) simp_all
next
  case (ValidatePipelineStage s c)
  then show ?thesis
    by (cases "validate_pipeline_stage s c") simp_all
qed simp_all

lemma read_resource_state:
  "snd (read_resource self clk uri) = self\<lparr> metrics := snd (get_statistics (metrics self) clk) \<rparr>"
proof -
  obtain r m where g: "get_statistics (metrics self) clk = (r, m)"
    by (cases "get_statistics (metrics self) clk")
  then show ?thesis
    by (cases r) (simp_all add: read_resource_def Let_def)
qed

lemma step_state:
  "step str_lower self (clk, r) = self
   \<or> (\<exists>a. step str_lower self (clk, r) = self\<lparr> metrics := record_analysis (metrics self) a \<rparr>)
   \<or> step str_lower self (clk, r) = self\<lparr> metrics := snd (get_statistics (metrics self) clk) \<rparr>"
proof (cases r)
  case (CallTool t)
  then show ?thesis using call_tool_state [of str_lower self clk t] by simp
next
  case (ReadResource uri)
  then show ?thesis by (simp add: read_resource_state)
qed

lemma step_monotonic:
  "total_count self \<le> total_count (step str_lower self cr)
   \<and> risk_count self l \<le> risk_count (step str_lower self cr) l
   \<and> usage_count self n \<le> usage_count (step str_lower self cr) n"
proof -
  obtain clk r where cr: "cr = (clk, r)" by (cases cr)
  consider "step str_lower self cr = self"
    | a where "step str_lower self cr = self\<lparr> metrics := record_analysis (metrics self) a \<rparr>"
    | "step str_lower self cr = self\<lparr> metrics := snd (get_statistics (metrics self) clk) \<rparr>"
    using step_state [of str_lower self clk r] cr by blast
  then show ?thesis
  proof cases
    case 1
    then show ?thesis by simp
  next
    case 2
    then show ?thesis
      by (simp add: total_count_def risk_count_def usage_count_def record_analysis_counts)
  next
    case 3
    then show ?thesis
      by (simp add: total_count_def risk_count_def usage_count_def get_statistics_counts)
  qed
qed

lemma run_monotonic:
  "total_count self \<le> total_count (run str_lower self reqs)
   \<and> risk_count self l \<le> risk_count (run str_lower self reqs) l
   \<and> usage_count self n \<le> usage_count (run str_lower self reqs) n"
proof (induction reqs arbitrary: self)
  case Nil
  then show ?case by (simp add: run_def)
next
  case (Cons cr reqs)
  have unfold: "run str_lower self (cr # reqs) = run str_lower (step str_lower self cr) reqs" by (simp add: run_def)
  show ?case
    unfolding unfold
    using Cons [of "step str_lower self cr"] step_monotonic [of self str_lower cr l n]
    by (meson le_trans)
qed

text \<open>
  Claim C10. Along any sequence of requests the counts of the collector never decrease:
  the number of recorded analyses, the count of every risk level and the usage count of
  every pattern after a longer run are at least what they were after any prefix of it,
  for every lower-casing function.
\<close>

theorem metrics_counts_monotonic:
  "total_count (run str_lower self earlier) \<le> total_count (run str_lower self (earlier @ later))
   \<and> risk_count (run str_lower self earlier) level \<le> risk_count (run str_lower self (earlier @ later)) level
   \<and> usage_count (run str_lower self earlier) name \<le> usage_count (run str_lower self (earlier @ later)) name"
proof -
  have "run str_lower self (earlier @ later) = run str_lower (run str_lower self earlier) later" by (simp add: run_def)
  then show ?thesis using run_monotonic [of "run str_lower self earlier" str_lower later level name] by simp
qed

theorem metrics_counts_monotonic_witness:
  "usage_count (run lower example_server [(example_clock, CallTool (AnalyzeChange ''scale down the pool''))])
      ''scale_down_replicas'' = 1
   \<and> usage_count (run lower example_server
        ([(example_clock, CallTool (AnalyzeChange ''scale down the pool''))] @
         [(later_clock, CallTool GetAnalysisStatistics),
          (later_clock, CallTool (AnalyzeChange ''Scale Down again''))]))
      ''scale_down_replicas'' = 2"
proof -
  have one: "usage_count (run lower example_server [(example_clock, CallTool (AnalyzeChange ''scale down the pool''))])
      ''scale_down_replicas'' = 1"
    by code_simp
  have two: "usage_count (run lower example_server
        ([(example_clock, CallTool (AnalyzeChange ''scale down the pool''))] @
         [(later_clock, CallTool GetAnalysisStatistics),
          (later_clock, CallTool (AnalyzeChange ''Scale Down again''))]))
      ''scale_down_replicas'' = 2"
    by code_simp
  show ?thesis
    using metrics_counts_monotonic [of lower example_server
      "[(example_clock, CallTool (AnalyzeChange ''scale down the pool''))]"
      "[(later_clock, CallTool GetAnalysisStatistics),
        (later_clock, CallTool (AnalyzeChange ''Scale Down again''))]"
      "''HIGH''" "''scale_down_replicas''"] one two
    by simp
qed

text \<open>
  On a collector as \<open>__init__\<close> builds it, \<open>get_statistics\<close> subtracts the aware
  \<open>start_time\<close> from the naive \<open>utcnow()\<close> and raises.
\<close>

lemma get_statistics_raises:
  "fst (get_statistics (new_metrics t0) clk) = Inl TypeError"
  by (simp add: get_statistics_def new_metrics_def dd_getitem_def Let_def)

end
